theory Spec2Isabelle
  imports Main "HOL-Library.Word"
begin

unbundle bit_operations_syntax

section \<open>WakeSync Mini: the alarm clock firmware of version\_01.ino\<close>

text \<open>
  The sketch keeps all of its state in global variables and runs one cooperative loop.
  The globals become one record that every routine takes and returns; what a routine
  reads from the outside world (the epoch clock, the broken-down local time, the
  millisecond counter) is an explicit input record. The buzzer pin and the OLED are
  fields of the state, so that \<open>tone\<close>, \<open>noTone\<close> and the drawing calls are
  visible effects.
\<close>

subsection \<open>Data\<close>

type_synonym uint8_t = "8 word"
type_synonym uint32_t = "32 word"

text \<open>\<open>struct AlarmSettings\<close>, also the layout of the EEPROM record.\<close>

record AlarmSettings =
  enabled :: uint8_t
  hour12 :: uint8_t
  minute :: uint8_t
  am :: uint8_t
  snoozeMin :: uint8_t
  crc :: uint32_t

text \<open>The fields of \<open>struct tm\<close> that the sketch reads.\<close>

record tm =
  tm_hour :: int
  tm_min :: int
  tm_sec :: int
  tm_yday :: int

text \<open>
  What one routine observes of its environment: \<open>time\<close> is the value of
  \<open>time(nullptr)\<close> (a signed \<open>time_t\<close>, modelled as an unbounded integer),
  \<open>localtime\<close> the result of \<open>localtime(&now)\<close> (\<open>None\<close> is the null pointer),
  \<open>millis\<close> the 32-bit millisecond counter, which wraps around.
\<close>

record env =
  time :: int
  localtime :: "tm option"
  millis :: uint32_t

text \<open>What the OLED shows after \<open>display.display()\<close>, field by field.\<close>

datatype oled_row1 = SyncingTime | ClockText int bool int bool

datatype oled_tag = RING | SNZ

datatype oled_frame = BootText | Frame oled_row1 bool int int bool "oled_tag option"

text \<open>
  The globals. \<open>eeprom\<close> is the record stored at EEPROM address 0, \<open>patternMs\<close> the
  function-local static of \<open>alarmSoundUpdate\<close>, \<open>buzzer\<close> the frequency the buzzer
  pin is playing (\<open>None\<close> after \<open>noTone\<close>). The C \<open>int\<close>s \<open>lastTriggerKey\<close>,
  \<open>toneFreq\<close> and \<open>toneDir\<close> are integers; the values they take stay far inside
  32 bits (see \<open>run_inv\<close> below).
\<close>

record state =
  cfg :: AlarmSettings
  eeprom :: AlarmSettings
  alarmRinging :: bool
  lastTriggerKey :: int
  snoozeUntil :: int
  lastToneStepMs :: uint32_t
  toneFreq :: int
  toneDir :: int
  toneOn :: bool
  patternMs :: uint32_t
  lastWiFiCheckMs :: uint32_t
  lastNTPSyncCheckMs :: uint32_t
  buzzer :: "int option"
  oled :: oled_frame

text \<open>The HTTP side: the form arguments in request order, and the two kinds of reply.\<close>

type_synonym http_args = "(string \<times> string) list"

datatype http_response = PlainText int string | Redirect int string

datatype request = POST_set http_args | POST_stop | POST_snooze

subsection \<open>Utilities\<close>

text \<open>C's \<open>%\<close> on \<open>int\<close> truncates towards zero.\<close>

definition c_rem :: "int \<Rightarrow> int \<Rightarrow> int" where
  "c_rem a b = a - b * (sgn a * sgn b * (\<bar>a\<bar> div \<bar>b\<bar>))"

definition simpleCRC :: "AlarmSettings \<Rightarrow> uint32_t" where
  "simpleCRC s =
     (let sum = (0 :: uint32_t);
          sum = sum + ucast (enabled s);
          sum = sum + ucast (hour12 s);
          sum = sum + ucast (minute s);
          sum = sum + ucast (am s);
          sum = sum + ucast (snoozeMin s);
          sum = (sum * 2654435761) XOR 0xA5A5A5A5
      in sum)"

definition loadSettings :: "state \<Rightarrow> state" where
  "loadSettings s =
     (let c = eeprom s in
      if hour12 c < 1 \<or> hour12 c > 12 \<or> minute c > 59 \<or> (am c \<noteq> 0 \<and> am c \<noteq> 1)
         \<or> snoozeMin c < 1 \<or> snoozeMin c > 30
      then
        (let c = c\<lparr>enabled := 0, hour12 := 7, minute := 0, am := 1, snoozeMin := 5\<rparr>;
             c = c\<lparr>crc := simpleCRC c\<rparr>
         in s\<lparr>cfg := c, eeprom := c\<rparr>)
      else if crc c \<noteq> simpleCRC c
      then
        (let c = c\<lparr>enabled := 0, hour12 := 7, minute := 0, am := 1, snoozeMin := 5\<rparr>;
             c = c\<lparr>crc := simpleCRC c\<rparr>
         in s\<lparr>cfg := c, eeprom := c\<rparr>)
      else s\<lparr>cfg := c\<rparr>)"

definition saveSettings :: "state \<Rightarrow> state" where
  "saveSettings s =
     (let c = (cfg s)\<lparr>crc := simpleCRC (cfg s)\<rparr>
      in s\<lparr>cfg := c, eeprom := c\<rparr>)"

definition to12h :: "int \<Rightarrow> int \<times> bool" where
  "to12h h24 =
     (let isAM = (h24 < 12);
          h = c_rem h24 12;
          h = (if h = 0 then 12 else h)
      in (h, isAM))"

definition alarmHour24 :: "state \<Rightarrow> int" where
  "alarmHour24 s =
     (if am (cfg s) = 1
      then (if hour12 (cfg s) = 12 then 0 else uint (hour12 (cfg s)))
      else (if hour12 (cfg s) = 12 then 12 else uint (hour12 (cfg s)) + 12))"

definition timeSynced :: "env \<Rightarrow> bool" where
  "timeSynced e = (time e > 1700000000)"

subsection \<open>Request handlers\<close>

text \<open>
  \<open>server.hasArg\<close> and \<open>server.arg\<close> of the web server library: the first argument
  of that name, the empty string when there is none.
\<close>

definition hasArg :: "http_args \<Rightarrow> string \<Rightarrow> bool" where
  "hasArg args n = (map_of args n \<noteq> None)"

definition arg :: "http_args \<Rightarrow> string \<Rightarrow> string" where
  "arg args n = (case map_of args n of None \<Rightarrow> [] | Some v \<Rightarrow> v)"

text \<open>
  \<open>String::toInt\<close> belongs to the Arduino core, not to the sketch: it is the
  parameter \<open>toInt\<close>. The casts \<open>(uint8_t)h\<close> keep the low eight bits.
\<close>

definition handleSet :: "(string \<Rightarrow> int) \<Rightarrow> http_args \<Rightarrow> state \<Rightarrow> http_response \<times> state" where
  "handleSet toInt args s =
     (if \<not> hasArg args ''h'' \<or> \<not> hasArg args ''m'' \<or> \<not> hasArg args ''ap'' \<or> \<not> hasArg args ''sz''
      then (PlainText 400 ''Missing fields'', s)
      else
        let h = toInt (arg args ''h'');
            m = toInt (arg args ''m'');
            ap = arg args ''ap'';
            sz = toInt (arg args ''sz'')
        in if h < 1 \<or> h > 12 \<or> m < 0 \<or> m > 59 \<or> sz < 1 \<or> sz > 30
           then (PlainText 400 ''Invalid values'', s)
           else
             let s = s\<lparr>cfg := (cfg s)\<lparr>hour12 := word_of_int h\<rparr>\<rparr>;
                 s = s\<lparr>cfg := (cfg s)\<lparr>minute := word_of_int m\<rparr>\<rparr>;
                 s = s\<lparr>cfg := (cfg s)\<lparr>am := (if ap = ''AM'' then 1 else 0)\<rparr>\<rparr>;
                 s = s\<lparr>cfg := (cfg s)\<lparr>enabled := (if hasArg args ''en'' then 1 else 0)\<rparr>\<rparr>;
                 s = s\<lparr>cfg := (cfg s)\<lparr>snoozeMin := word_of_int sz\<rparr>\<rparr>;
                 s = saveSettings s;
                 s = s\<lparr>alarmRinging := False\<rparr>;
                 s = s\<lparr>snoozeUntil := 0\<rparr>;
                 s = s\<lparr>buzzer := None\<rparr>;
                 s = s\<lparr>lastTriggerKey := -1\<rparr>
             in (Redirect 303 ''/'', s))"

definition handleStop :: "state \<Rightarrow> http_response \<times> state" where
  "handleStop s =
     (let s = s\<lparr>alarmRinging := False\<rparr>;
          s = s\<lparr>snoozeUntil := 0\<rparr>;
          s = s\<lparr>buzzer := None\<rparr>;
          s = s\<lparr>lastTriggerKey := -1\<rparr>
      in (Redirect 303 ''/'', s))"

definition handleSnooze :: "env \<Rightarrow> state \<Rightarrow> http_response \<times> state" where
  "handleSnooze e s =
     (let s = (if alarmRinging s \<and> timeSynced e
               then (let now = time e
                     in s\<lparr>snoozeUntil := now + uint (snoozeMin (cfg s)) * 60\<rparr>)
               else s);
          s = s\<lparr>alarmRinging := False\<rparr>;
          s = s\<lparr>buzzer := None\<rparr>;
          s = s\<lparr>lastTriggerKey := -1\<rparr>
      in (Redirect 303 ''/'', s))"

subsection \<open>Alarm sound\<close>

definition alarmSoundUpdate :: "env \<Rightarrow> state \<Rightarrow> state" where
  "alarmSoundUpdate e s =
     (if \<not> alarmRinging s then s\<lparr>buzzer := None\<rparr>
      else
        let nowMs = millis e;
            s = (if patternMs s = 0 then s\<lparr>patternMs := nowMs\<rparr> else s);
            phase = (nowMs - patternMs s) mod 500;
            shouldOn = (phase < 350)
        in if shouldOn
           then
             (if nowMs - lastToneStepMs s > 60
              then
                let s = s\<lparr>lastToneStepMs := nowMs\<rparr>;
                    s = s\<lparr>toneFreq := toneFreq s + toneDir s * 120\<rparr>;
                    s = (if toneFreq s \<ge> 2500 then s\<lparr>toneDir := -1\<rparr> else s);
                    s = (if toneFreq s \<le> 1200 then s\<lparr>toneDir := 1\<rparr> else s)
                in s\<lparr>buzzer := Some (toneFreq s)\<rparr>
              else s)
           else s\<lparr>buzzer := None\<rparr>)"

text \<open>
  The pieces of the routine by name: where the 500 ms pattern starts, whether the tone
  is in its on-phase, whether a new sample is due, and the frequency and direction of
  that sample.
\<close>

definition pattern_start :: "env \<Rightarrow> state \<Rightarrow> uint32_t" where
  "pattern_start e s = (if patternMs s = 0 then millis e else patternMs s)"

definition sound_on :: "env \<Rightarrow> state \<Rightarrow> bool" where
  "sound_on e s = ((millis e - pattern_start e s) mod 500 < 350)"

definition sound_due :: "env \<Rightarrow> state \<Rightarrow> bool" where
  "sound_due e s = (millis e - lastToneStepMs s > 60)"

definition warble_freq :: "state \<Rightarrow> int" where
  "warble_freq s = toneFreq s + toneDir s * 120"

definition warble_dir :: "state \<Rightarrow> int" where
  "warble_dir s =
     (if warble_freq s \<le> 1200 then 1 else if warble_freq s \<ge> 2500 then -1 else toneDir s)"

subsection \<open>OLED\<close>

text \<open>
  Row 1 of the screen: the clock when the time is synced, a notice otherwise. The
  routine dereferences the result of \<open>localtime\<close> without a check: on a null
  pointer it has no result (\<open>None\<close>).
\<close>

definition drawOLED_row1 :: "env \<Rightarrow> oled_row1 option" where
  "drawOLED_row1 e =
     (if timeSynced e
      then (case localtime e of
              None \<Rightarrow> None
            | Some ti \<Rightarrow>
                let (h12, isAM) = to12h (tm_hour ti);
                    colonOn = (c_rem (tm_sec ti) 2 = 0)
                in Some (ClockText h12 colonOn (tm_min ti) isAM))
      else Some SyncingTime)"

text \<open>Row 2 (alarm status, then the ringing or snooze tag) and the transfer to the screen.\<close>

definition drawOLED :: "env \<Rightarrow> state \<Rightarrow> state option" where
  "drawOLED e s =
     (case drawOLED_row1 e of
        None \<Rightarrow> None
      | Some row1 \<Rightarrow>
          let shown = Frame row1 (enabled (cfg s) \<noteq> 0) (uint (hour12 (cfg s)))
                        (uint (minute (cfg s))) (am (cfg s) \<noteq> 0)
          in if alarmRinging s then Some (s\<lparr>oled := shown (Some RING)\<rparr>)
             else if snoozeUntil s > 0 \<and> timeSynced e
             then
               (let now = time e
                in if now < snoozeUntil s then Some (s\<lparr>oled := shown (Some SNZ)\<rparr>)
                   else Some (s\<lparr>snoozeUntil := 0, oled := shown None\<rparr>))
             else Some (s\<lparr>oled := shown None\<rparr>))"

subsection \<open>Trigger logic\<close>

definition updateAlarmLogic :: "env \<Rightarrow> state \<Rightarrow> state" where
  "updateAlarmLogic e s =
     (if enabled (cfg s) = 0 then s
      else if \<not> timeSynced e then s
      else
        let now = time e
        in if snoozeUntil s > 0
           then (if now \<ge> snoozeUntil s
                 then s\<lparr>snoozeUntil := 0, alarmRinging := True, lastTriggerKey := -1\<rparr>
                 else s)
           else
             (case localtime e of
                None \<Rightarrow> s
              | Some ti \<Rightarrow>
                  let aH24 = alarmHour24 s
                  in if tm_hour ti = aH24 \<and> tm_min ti = uint (minute (cfg s))
                        \<and> tm_sec ti = 0 \<and> \<not> alarmRinging s
                     then
                       (let key = (tm_yday ti * 24 * 60) + (tm_hour ti * 60) + tm_min ti
                        in if key \<noteq> lastTriggerKey s
                           then s\<lparr>lastTriggerKey := key, alarmRinging := True,
                                  toneFreq := 1200, toneDir := 1, lastToneStepMs := 0\<rparr>
                           else s)
                     else s))"

subsection \<open>WiFi and NTP timers\<close>

text \<open>
  The reconnect and \<open>configTime\<close> calls act on the network stack only; of the
  sketch's own variables the routine writes the two timestamps.
\<close>

definition maintainWiFiAndTime :: "env \<Rightarrow> state \<Rightarrow> state" where
  "maintainWiFiAndTime e s =
     (let nowMs = millis e;
          s = (if nowMs - lastWiFiCheckMs s > 5000 then s\<lparr>lastWiFiCheckMs := nowMs\<rparr> else s);
          s = (if nowMs - lastNTPSyncCheckMs s > 10000 then s\<lparr>lastNTPSyncCheckMs := nowMs\<rparr> else s)
      in s)"

subsection \<open>Setup and loop\<close>

text \<open>
  \<open>boot rom\<close> is the initial value of the globals on a device whose EEPROM holds
  \<open>rom\<close>; \<open>setup_sketch\<close> is what \<^verbatim>\<open>setup()\<close> does to them: it silences the
  buzzer and loads the settings. (When the display does not start, \<^verbatim>\<open>setup()\<close>
  spins forever and the loop is never entered; the WiFi and NTP calls write none of
  the globals.)
\<close>

definition boot :: "AlarmSettings \<Rightarrow> state" where
  "boot rom =
     \<lparr>cfg = \<lparr>enabled = 0, hour12 = 0, minute = 0, am = 0, snoozeMin = 0, crc = 0\<rparr>,
      eeprom = rom,
      alarmRinging = False,
      lastTriggerKey = -1,
      snoozeUntil = 0,
      lastToneStepMs = 0,
      toneFreq = 1200,
      toneDir = 1,
      toneOn = False,
      patternMs = 0,
      lastWiFiCheckMs = 0,
      lastNTPSyncCheckMs = 0,
      buzzer = None,
      oled = BootText\<rparr>"

definition setup_sketch :: "AlarmSettings \<Rightarrow> state" where
  "setup_sketch rom = loadSettings ((boot rom)\<lparr>buzzer := None\<rparr>)"

text \<open>
  The dispatch of \<open>server.handleClient()\<close> for the three POST routes. The GET route
  (\<open>handleRoot\<close>) renders the page from the globals and writes none of them.
\<close>

definition handleClient :: "(string \<Rightarrow> int) \<Rightarrow> request \<Rightarrow> env \<Rightarrow> state \<Rightarrow> http_response \<times> state" where
  "handleClient toInt r e s =
     (case r of
        POST_set args \<Rightarrow> handleSet toInt args s
      | POST_stop \<Rightarrow> handleStop s
      | POST_snooze \<Rightarrow> handleSnooze e s)"

text \<open>
  One pass of \<open>loop()\<close> when no client is waiting. The four routines of a pass see
  one reading \<open>e\<close> of the clocks; readings that differ between the routines are
  covered by the single-routine events of a run, below.
\<close>

definition tick :: "env \<Rightarrow> state \<Rightarrow> state option" where
  "tick e s =
     (let s = maintainWiFiAndTime e s;
          s = updateAlarmLogic e s;
          s = alarmSoundUpdate e s
      in drawOLED e s)"

text \<open>One pass of \<open>loop()\<close>, with the request it serves first, if any.\<close>

definition loop :: "(string \<Rightarrow> int) \<Rightarrow> request option \<Rightarrow> env \<Rightarrow> state \<Rightarrow> state option" where
  "loop toInt req e s =
     (case req of
        None \<Rightarrow> tick e s
      | Some r \<Rightarrow> tick e (snd (handleClient toInt r e s)))"

subsection \<open>Runs\<close>

text \<open>
  Everything that can happen to the globals after \<open>setup()\<close>: a request handler, one
  of the four routines of the loop, or a whole pass of the loop, each with the
  environment it observes. A run is a list of such events; it has no result when
  \<open>drawOLED\<close> has none.
\<close>

datatype event =
    Ev_request request env
  | Ev_maintain env
  | Ev_engine env
  | Ev_sound env
  | Ev_draw env
  | Ev_loop "request option" env

definition step :: "(string \<Rightarrow> int) \<Rightarrow> event \<Rightarrow> state \<Rightarrow> state option" where
  "step toInt ev s =
     (case ev of
        Ev_request r e \<Rightarrow> Some (snd (handleClient toInt r e s))
      | Ev_maintain e \<Rightarrow> Some (maintainWiFiAndTime e s)
      | Ev_engine e \<Rightarrow> Some (updateAlarmLogic e s)
      | Ev_sound e \<Rightarrow> Some (alarmSoundUpdate e s)
      | Ev_draw e \<Rightarrow> drawOLED e s
      | Ev_loop req e \<Rightarrow> loop toInt req e s)"

fun run :: "(string \<Rightarrow> int) \<Rightarrow> event list \<Rightarrow> state \<Rightarrow> state option" where
  "run toInt [] s = Some s"
| "run toInt (ev # evs) s =
     (case step toInt ev s of None \<Rightarrow> None | Some s' \<Rightarrow> run toInt evs s')"

text \<open>
  The three states of the trigger engine, read off the globals: ringing, snoozed
  (a deadline is set, \<open>snoozeUntil > 0\<close> as the sketch tests it), idle otherwise.
\<close>

definition idle :: "state \<Rightarrow> bool" where
  "idle s = (\<not> alarmRinging s \<and> \<not> snoozeUntil s > 0)"

definition snoozed :: "state \<Rightarrow> bool" where
  "snoozed s = (\<not> alarmRinging s \<and> snoozeUntil s > 0)"

text \<open>The minute-guard key of a broken-down time, as \<open>updateAlarmLogic\<close> computes it.\<close>

definition minute_key :: "tm \<Rightarrow> int" where
  "minute_key ti = (tm_yday ti * 24 * 60) + (tm_hour ti * 60) + tm_min ti"

text \<open>
  \<open>ring_starts es s\<close> runs one request-free pass of the loop per environment of
  \<open>es\<close> and counts the passes that take the engine from idle to ringing.
\<close>

fun ring_starts :: "env list \<Rightarrow> state \<Rightarrow> (nat \<times> state) option" where
  "ring_starts [] s = Some (0, s)"
| "ring_starts (e # es) s =
     (case tick e s of
        None \<Rightarrow> None
      | Some s' \<Rightarrow>
          (case ring_starts es s' of
             None \<Rightarrow> None
           | Some (n, s'') \<Rightarrow> Some ((if idle s \<and> alarmRinging s' then 1 else 0) + n, s'')))"

text \<open>The invariant of all runs.\<close>

definition run_inv :: "state \<Rightarrow> bool" where
  "run_inv s =
     (0 \<le> snoozeUntil s
      \<and> (alarmRinging s \<longrightarrow> snoozeUntil s = 0)
      \<and> (\<not> alarmRinging s \<longrightarrow> lastTriggerKey s = -1)
      \<and> 1200 \<le> toneFreq s \<and> toneFreq s \<le> 2520
      \<and> (toneFreq s - 1200) mod 120 = 0
      \<and> (toneDir s = 1 \<or> toneDir s = -1)
      \<and> (toneFreq s = 2520 \<longrightarrow> toneDir s = -1)
      \<and> (toneFreq s = 1200 \<longrightarrow> toneDir s = 1)
      \<and> (case buzzer s of None \<Rightarrow> True | Some f \<Rightarrow> 1200 \<le> f \<and> f \<le> 2520))"

text \<open>The range test of \<open>loadSettings\<close>, and the record it falls back to.\<close>

definition in_range :: "AlarmSettings \<Rightarrow> bool" where
  "in_range c =
     (1 \<le> hour12 c \<and> hour12 c \<le> 12 \<and> minute c \<le> 59 \<and> (am c = 0 \<or> am c = 1)
      \<and> 1 \<le> snoozeMin c \<and> snoozeMin c \<le> 30)"

definition default_settings :: AlarmSettings where
  "default_settings =
     \<lparr>enabled = 0, hour12 = 7, minute = 0, am = 1, snoozeMin = 5, crc = 0xAD748858\<rparr>"

subsection \<open>Concrete devices and clocks\<close>

text \<open>
  An EEPROM record with the alarm enabled at 7:00 AM and a five-minute snooze, and the
  environments of 2 November 2026 (day 305 of the year) in UTC+6: 07:00:00 is epoch
  second 1793581200.
\<close>

definition rom_0700 :: AlarmSettings where
  "rom_0700 = \<lparr>enabled = 1, hour12 = 7, minute = 0, am = 1, snoozeMin = 5, crc = 0x02AD020B\<rparr>"

definition at_clock :: "int \<Rightarrow> int \<Rightarrow> int \<Rightarrow> int \<Rightarrow> uint32_t \<Rightarrow> env" where
  "at_clock t h m sec ms =
     \<lparr>time = t, localtime = Some \<lparr>tm_hour = h, tm_min = m, tm_sec = sec, tm_yday = 305\<rparr>,
      millis = ms\<rparr>"

definition ringing_0700 :: state where
  "ringing_0700 = updateAlarmLogic (at_clock 1793581200 7 0 0 20000) (setup_sketch rom_0700)"

text \<open>
  The sound routine called once per environment, the ringing device 80 ms apart for
  1.12 s, and the same device snoozed at 07:00:02 (until 07:05:02, epoch second
  1793581502).
\<close>

fun alarmSoundUpdates :: "env list \<Rightarrow> state \<Rightarrow> state" where
  "alarmSoundUpdates [] s = s"
| "alarmSoundUpdates (e # es) s = alarmSoundUpdates es (alarmSoundUpdate e s)"

definition warble_clocks :: "env list" where
  "warble_clocks =
     [at_clock 1793581200 7 0 0 20000, at_clock 1793581200 7 0 0 20080,
      at_clock 1793581200 7 0 0 20160, at_clock 1793581200 7 0 0 20240,
      at_clock 1793581200 7 0 0 20320, at_clock 1793581200 7 0 0 20400,
      at_clock 1793581200 7 0 0 20480, at_clock 1793581200 7 0 0 20560,
      at_clock 1793581200 7 0 0 20640, at_clock 1793581200 7 0 0 20720,
      at_clock 1793581200 7 0 0 20800, at_clock 1793581200 7 0 0 20880,
      at_clock 1793581200 7 0 0 20960, at_clock 1793581201 7 0 1 21040,
      at_clock 1793581201 7 0 1 21120]"

definition warbled_0700 :: state where
  "warbled_0700 = alarmSoundUpdates warble_clocks ringing_0700"

definition snoozed_0700 :: state where
  "snoozed_0700 = snd (handleSnooze (at_clock 1793581202 7 0 2 22000) warbled_0700)"

text \<open>
  A reading of \<open>toInt\<close> for the concrete requests below, after C's \<open>atol\<close>:
  leading white space is skipped, an optional sign is read, then the value of the
  decimal digits that follow, 0 when there are none. (Values beyond the range of
  \<open>long\<close> are not cut off; no request below has one.)
\<close>

fun decimal :: "int \<Rightarrow> string \<Rightarrow> int" where
  "decimal acc [] = acc"
| "decimal acc (c # cs) =
     (let d = of_char c - 48
      in if 0 \<le> d \<and> d \<le> 9 then decimal (10 * acc + d) cs else acc)"

definition is_space :: "char \<Rightarrow> bool" where
  "is_space c = (let n = (of_char c :: nat) in n = 32 \<or> (9 \<le> n \<and> n \<le> 13))"

definition toInt_digits :: "string \<Rightarrow> int" where
  "toInt_digits x =
     (case dropWhile is_space x of
        [] \<Rightarrow> 0
      | c # cs \<Rightarrow>
          if c = CHR ''-'' then - decimal 0 cs
          else if c = CHR ''+'' then decimal 0 cs
          else decimal 0 (c # cs))"

definition form_ok :: http_args where
  "form_ok = [(''h'', ''6''), (''m'', ''30''), (''ap'', ''PM''), (''en'', ''1''), (''sz'', ''10'')]"

definition form_missing :: http_args where
  "form_missing = [(''h'', ''6''), (''m'', ''30''), (''ap'', ''PM''), (''en'', ''1'')]"

definition form_invalid :: http_args where
  "form_invalid = [(''h'', ''13''), (''m'', ''30''), (''ap'', ''PM''), (''en'', ''1''), (''sz'', ''10'')]"

definition minute_0700_clocks :: "env list" where
  "minute_0700_clocks =
     [at_clock 1793581200 7 0 0 20080, at_clock 1793581201 7 0 1 21040,
      at_clock 1793581259 7 0 59 79000]"

text \<open>
  The same history as a run from \<open>setup()\<close>: the 07:00:00 pass of the engine, the
  fifteen sound updates, then the snooze request and the engine at 07:05:02.
\<close>

definition warble_events :: "event list" where
  "warble_events = Ev_engine (at_clock 1793581200 7 0 0 20000) # map Ev_sound warble_clocks"

definition rering_events :: "event list" where
  "rering_events =
     warble_events @
     [Ev_request POST_snooze (at_clock 1793581202 7 0 2 22000),
      Ev_engine (at_clock 1793581502 7 5 2 322000)]"

definition rerung_0700 :: state where
  "rerung_0700 = updateAlarmLogic (at_clock 1793581502 7 5 2 322000) snoozed_0700"

text \<open>Two states agree on the alarm configuration, the stored record and the trigger state.\<close>

definition same_trigger :: "state \<Rightarrow> state \<Rightarrow> bool" where
  "same_trigger s s' =
     (cfg s' = cfg s \<and> eeprom s' = eeprom s \<and> alarmRinging s' = alarmRinging s
      \<and> lastTriggerKey s' = lastTriggerKey s \<and> snoozeUntil s' = snoozeUntil s)"

text \<open>
  \<open>loop_ring_starts\<close> runs one pass of \<open>loop()\<close> per entry, each with the request it
  serves first, if any, and counts the passes in which the state that the engine
  meets (the one the request handler left) is idle and the pass ends ringing.
\<close>

fun loop_ring_starts ::
  "(string \<Rightarrow> int) \<Rightarrow> (request option \<times> env) list \<Rightarrow> state \<Rightarrow> (nat \<times> state) option" where
  "loop_ring_starts toInt [] s = Some (0, s)"
| "loop_ring_starts toInt ((req, e) # res) s =
     (let s0 = (case req of None \<Rightarrow> s | Some r \<Rightarrow> snd (handleClient toInt r e s))
      in case loop toInt req e s of
           None \<Rightarrow> None
         | Some s' \<Rightarrow>
             (case loop_ring_starts toInt res s' of
                None \<Rightarrow> None
              | Some (n, s'') \<Rightarrow>
                  Some ((if idle s0 \<and> alarmRinging s' then 1 else 0) + n, s'')))"

text \<open>
  Two passes of the loop 80 ms apart, both while the clock reads 07:00:00; the second
  serves a stop request, or a request that sets the same alarm again.
\<close>

definition stop_at_0700_passes :: "(request option \<times> env) list" where
  "stop_at_0700_passes =
     [(None, at_clock 1793581200 7 0 0 20000),
      (Some POST_stop, at_clock 1793581200 7 0 0 20080)]"

definition form_0700 :: http_args where
  "form_0700 = [(''h'', ''7''), (''m'', ''0''), (''ap'', ''AM''), (''en'', ''1''), (''sz'', ''5'')]"

definition set_at_0700_passes :: "(request option \<times> env) list" where
  "set_at_0700_passes =
     [(None, at_clock 1793581200 7 0 0 20000),
      (Some (POST_set form_0700), at_clock 1793581200 7 0 0 20080)]"

section \<open>Properties\<close>

subsection \<open>The settings store\<close>

lemma simpleCRC_crc_update: "simpleCRC (c\<lparr>crc := x\<rparr>) = simpleCRC c"
  by (simp add: simpleCRC_def)

lemma simpleCRC_default: "simpleCRC default_settings = 0xAD748858"
  by (simp add: simpleCRC_def default_settings_def)

lemma one_le_word: "(1 \<le> (x::'a::len word)) = (x \<noteq> 0)"
  using word_less_1 [of x] by (simp flip: not_less)

lemma fallback_record:
  "(c0::AlarmSettings)\<lparr>enabled := 0, hour12 := 7, minute := 0, am := 1, snoozeMin := 5,
       crc := simpleCRC (c0\<lparr>enabled := 0, hour12 := 7, minute := 0, am := 1, snoozeMin := 5\<rparr>)\<rparr>
     = default_settings"
proof -
  have "simpleCRC (c0\<lparr>enabled := 0, hour12 := 7, minute := 0, am := 1, snoozeMin := 5\<rparr>)
          = simpleCRC default_settings"
    by (simp add: simpleCRC_def default_settings_def)
  then show ?thesis
    unfolding simpleCRC_default by (cases c0) (simp add: default_settings_def)
qed

lemma loadSettings_cases:
  "loadSettings s =
     (if in_range (eeprom s) \<and> crc (eeprom s) = simpleCRC (eeprom s)
      then s\<lparr>cfg := eeprom s\<rparr>
      else s\<lparr>cfg := default_settings, eeprom := default_settings\<rparr>)"
  by (auto simp add: loadSettings_def fallback_record in_range_def Let_def not_less one_le_word)

text \<open>
  C7. A stored record with a field out of range or with a checksum that does not match
  is replaced by the defaults (disabled, 7:00 AM, snooze 5), in memory and in the
  EEPROM; the defaults carry their own valid checksum, so the next load keeps them.
  \<open>loadSettings\<close> is total: there is no error to surface.
\<close>

theorem loadSettings_replaces_invalid_record:
  assumes "\<not> in_range (eeprom s) \<or> crc (eeprom s) \<noteq> simpleCRC (eeprom s)"
  shows "loadSettings s = s\<lparr>cfg := default_settings, eeprom := default_settings\<rparr>
     \<and> default_settings = \<lparr>enabled = 0, hour12 = 7, minute = 0, am = 1, snoozeMin = 5,
                            crc = simpleCRC default_settings\<rparr>
     \<and> in_range default_settings
     \<and> loadSettings (loadSettings s) = loadSettings s"
proof -
  have 1: "loadSettings s = s\<lparr>cfg := default_settings, eeprom := default_settings\<rparr>"
    using assms by (auto simp add: loadSettings_cases)
  have 2: "default_settings = \<lparr>enabled = 0, hour12 = 7, minute = 0, am = 1, snoozeMin = 5,
                            crc = simpleCRC default_settings\<rparr>"
    unfolding simpleCRC_default by (simp add: default_settings_def)
  have 3: "in_range default_settings"
    by (simp add: in_range_def default_settings_def)
  have "crc default_settings = simpleCRC default_settings"
    unfolding simpleCRC_default by (simp add: default_settings_def)
  with 3 have 4: "loadSettings (loadSettings s) = loadSettings s"
    unfolding 1 by (simp add: loadSettings_cases)
  from 1 2 3 4 show ?thesis by blast
qed

theorem loadSettings_replaces_invalid_record_witness:
  "crc (eeprom (boot (rom_0700\<lparr>crc := 0\<rparr>))) \<noteq> simpleCRC (eeprom (boot (rom_0700\<lparr>crc := 0\<rparr>)))
   \<and> cfg (loadSettings (boot (rom_0700\<lparr>crc := 0\<rparr>))) = default_settings
   \<and> eeprom (loadSettings (boot (rom_0700\<lparr>crc := 0\<rparr>))) = default_settings"
proof -
  have h: "crc (eeprom (boot (rom_0700\<lparr>crc := 0\<rparr>))) \<noteq> simpleCRC (eeprom (boot (rom_0700\<lparr>crc := 0\<rparr>)))"
    by (simp add: boot_def rom_0700_def simpleCRC_def)
  then have "\<not> in_range (eeprom (boot (rom_0700\<lparr>crc := 0\<rparr>)))
      \<or> crc (eeprom (boot (rom_0700\<lparr>crc := 0\<rparr>))) \<noteq> simpleCRC (eeprom (boot (rom_0700\<lparr>crc := 0\<rparr>)))"
    by simp
  from loadSettings_replaces_invalid_record [OF this] h show ?thesis by simp
qed

text \<open>
  C10. Saving a configuration whose fields are in range and loading it again gives the
  configuration that was saved: the five fields as they were, with the checksum that
  \<open>saveSettings\<close> computed. The same holds across a reboot, when \<open>setup()\<close> loads the
  stored record into fresh globals.
\<close>

theorem save_then_load_roundtrip:
  assumes "in_range (cfg s)"
  shows "loadSettings (saveSettings s) = saveSettings s
     \<and> cfg (loadSettings (saveSettings s)) = (cfg s)\<lparr>crc := simpleCRC (cfg s)\<rparr>
     \<and> cfg (setup_sketch (eeprom (saveSettings s))) = (cfg s)\<lparr>crc := simpleCRC (cfg s)\<rparr>"
  using assms
  by (simp add: loadSettings_cases saveSettings_def setup_sketch_def boot_def in_range_def
      simpleCRC_crc_update Let_def)

theorem save_then_load_roundtrip_witness:
  "in_range (cfg ((boot rom_0700)\<lparr>cfg := rom_0700\<lparr>crc := 0\<rparr>\<rparr>))
   \<and> cfg (loadSettings (saveSettings ((boot rom_0700)\<lparr>cfg := rom_0700\<lparr>crc := 0\<rparr>\<rparr>))) = rom_0700"
proof -
  have h: "in_range (cfg ((boot rom_0700)\<lparr>cfg := rom_0700\<lparr>crc := 0\<rparr>\<rparr>))"
    by (simp add: in_range_def rom_0700_def)
  from save_then_load_roundtrip [OF h]
  have "cfg (loadSettings (saveSettings ((boot rom_0700)\<lparr>cfg := rom_0700\<lparr>crc := 0\<rparr>\<rparr>)))
          = (cfg ((boot rom_0700)\<lparr>cfg := rom_0700\<lparr>crc := 0\<rparr>\<rparr>))
              \<lparr>crc := simpleCRC (cfg ((boot rom_0700)\<lparr>cfg := rom_0700\<lparr>crc := 0\<rparr>\<rparr>))\<rparr>"
    by blast
  also have "\<dots> = rom_0700"
    by (simp add: simpleCRC_def rom_0700_def)
  finally show ?thesis using h by blast
qed

subsection \<open>Stop and snooze\<close>

text \<open>
  C3 (as the sketch has it). While ringing with a synced clock, the snooze request sets
  \<open>snoozeUntil\<close> to now plus \<open>snoozeMin\<close> minutes, clears \<open>alarmRinging\<close>, silences the
  buzzer and also clears the guard key \<open>lastTriggerKey\<close> (to -1).
\<close>

theorem handleSnooze_while_ringing:
  assumes "alarmRinging s" and "timeSynced e"
  shows "snoozeUntil (snd (handleSnooze e s)) = time e + uint (snoozeMin (cfg s)) * 60
     \<and> \<not> alarmRinging (snd (handleSnooze e s))
     \<and> lastTriggerKey (snd (handleSnooze e s)) = -1
     \<and> handleSnooze e s =
         (Redirect 303 ''/'',
          s\<lparr>snoozeUntil := time e + uint (snoozeMin (cfg s)) * 60, alarmRinging := False,
            buzzer := None, lastTriggerKey := -1\<rparr>)"
  using assms by (simp add: handleSnooze_def Let_def)

theorem handleSnooze_while_ringing_witness:
  "alarmRinging warbled_0700 \<and> timeSynced (at_clock 1793581202 7 0 2 22000)
   \<and> snoozeUntil (snd (handleSnooze (at_clock 1793581202 7 0 2 22000) warbled_0700)) = 1793581502"
proof -
  have r: "alarmRinging warbled_0700" by code_simp
  have t: "timeSynced (at_clock 1793581202 7 0 2 22000)" by code_simp
  have c: "time (at_clock 1793581202 7 0 2 22000) + uint (snoozeMin (cfg warbled_0700)) * 60 = 1793581502"
    by code_simp
  from handleSnooze_while_ringing [OF r t] r t c show ?thesis by simp
qed

theorem handleSnooze_clears_key_counterexample:
  "alarmRinging warbled_0700 \<and> timeSynced (at_clock 1793581202 7 0 2 22000)
   \<and> lastTriggerKey warbled_0700 = 439620
   \<and> lastTriggerKey (snd (handleSnooze (at_clock 1793581202 7 0 2 22000) warbled_0700)) = -1"
  by code_simp

text \<open>
  C4 (as the sketch has it). When the alarm is not ringing or the clock is not synced,
  the snooze request clears \<open>alarmRinging\<close>, silences the buzzer and clears the guard
  key, and leaves \<open>snoozeUntil\<close> as it is. Its result is that of the stop request
  exactly when no snooze deadline is stored.
\<close>

theorem handleSnooze_otherwise:
  assumes "\<not> (alarmRinging s \<and> timeSynced e)"
  shows "handleSnooze e s =
           (Redirect 303 ''/'', s\<lparr>alarmRinging := False, buzzer := None, lastTriggerKey := -1\<rparr>)
     \<and> snoozeUntil (snd (handleSnooze e s)) = snoozeUntil s
     \<and> (handleSnooze e s = handleStop s) = (snoozeUntil s = 0)"
proof -
  have 1: "handleSnooze e s =
           (Redirect 303 ''/'', s\<lparr>alarmRinging := False, buzzer := None, lastTriggerKey := -1\<rparr>)"
    using assms by (auto simp add: handleSnooze_def Let_def)
  have 2: "handleStop s =
           (Redirect 303 ''/'', s\<lparr>alarmRinging := False, snoozeUntil := 0, buzzer := None,
                                   lastTriggerKey := -1\<rparr>)"
    by (simp add: handleStop_def Let_def)
  have 3: "(handleSnooze e s = handleStop s) = (snoozeUntil s = 0)"
  proof
    assume "handleSnooze e s = handleStop s"
    then have "snoozeUntil (snd (handleSnooze e s)) = snoozeUntil (snd (handleStop s))" by simp
    then show "snoozeUntil s = 0" unfolding 1 2 by simp
  next
    assume "snoozeUntil s = 0"
    then show "handleSnooze e s = handleStop s" unfolding 1 2 by (cases s) simp
  qed
  from 1 3 show ?thesis by simp
qed

theorem handleSnooze_otherwise_witness:
  "\<not> alarmRinging (setup_sketch rom_0700)
   \<and> handleSnooze (at_clock 1793581202 7 0 2 22000) (setup_sketch rom_0700)
       = handleStop (setup_sketch rom_0700)"
proof -
  have r: "\<not> alarmRinging (setup_sketch rom_0700)" by code_simp
  then have h: "\<not> (alarmRinging (setup_sketch rom_0700) \<and> timeSynced (at_clock 1793581202 7 0 2 22000))"
    by simp
  have z: "snoozeUntil (setup_sketch rom_0700) = 0" by code_simp
  from handleSnooze_otherwise [OF h]
  have "(handleSnooze (at_clock 1793581202 7 0 2 22000) (setup_sketch rom_0700)
           = handleStop (setup_sketch rom_0700)) = (snoozeUntil (setup_sketch rom_0700) = 0)"
    by blast
  with r z show ?thesis by blast
qed

theorem handleSnooze_is_not_stop_counterexample:
  "\<not> alarmRinging snoozed_0700
   \<and> snoozeUntil (snd (handleSnooze (at_clock 1793581210 7 0 10 30000) snoozed_0700)) = 1793581502
   \<and> snoozeUntil (snd (handleStop snoozed_0700)) = 0
   \<and> handleSnooze (at_clock 1793581210 7 0 10 30000) snoozed_0700 \<noteq> handleStop snoozed_0700"
  by code_simp

subsection \<open>Applying a configuration\<close>

lemma uint_cast_small: "0 \<le> k \<Longrightarrow> k < 256 \<Longrightarrow> uint (word_of_int k :: uint8_t) = k"
  by (simp add: uint_word_of_int take_bit_int_eq_self)

lemma handleSet_accept:
  assumes "hasArg args ''h''" "hasArg args ''m''" "hasArg args ''ap''" "hasArg args ''sz''"
    and "1 \<le> toInt (arg args ''h'')" "toInt (arg args ''h'') \<le> 12"
    and "0 \<le> toInt (arg args ''m'')" "toInt (arg args ''m'') \<le> 59"
    and "1 \<le> toInt (arg args ''sz'')" "toInt (arg args ''sz'') \<le> 30"
  shows "handleSet toInt args s =
     (Redirect 303 ''/'',
      s\<lparr>cfg := \<lparr>enabled = (if hasArg args ''en'' then 1 else 0),
                 hour12 = word_of_int (toInt (arg args ''h'')),
                 minute = word_of_int (toInt (arg args ''m'')),
                 am = (if arg args ''ap'' = ''AM'' then 1 else 0),
                 snoozeMin = word_of_int (toInt (arg args ''sz'')),
                 crc = simpleCRC
                   \<lparr>enabled = (if hasArg args ''en'' then 1 else 0),
                    hour12 = word_of_int (toInt (arg args ''h'')),
                    minute = word_of_int (toInt (arg args ''m'')),
                    am = (if arg args ''ap'' = ''AM'' then 1 else 0),
                    snoozeMin = word_of_int (toInt (arg args ''sz'')),
                    crc = crc (cfg s)\<rparr>\<rparr>,
        eeprom := \<lparr>enabled = (if hasArg args ''en'' then 1 else 0),
                 hour12 = word_of_int (toInt (arg args ''h'')),
                 minute = word_of_int (toInt (arg args ''m'')),
                 am = (if arg args ''ap'' = ''AM'' then 1 else 0),
                 snoozeMin = word_of_int (toInt (arg args ''sz'')),
                 crc = simpleCRC
                   \<lparr>enabled = (if hasArg args ''en'' then 1 else 0),
                    hour12 = word_of_int (toInt (arg args ''h'')),
                    minute = word_of_int (toInt (arg args ''m'')),
                    am = (if arg args ''ap'' = ''AM'' then 1 else 0),
                    snoozeMin = word_of_int (toInt (arg args ''sz'')),
                    crc = crc (cfg s)\<rparr>\<rparr>,
        alarmRinging := False, snoozeUntil := 0, buzzer := None, lastTriggerKey := -1\<rparr>)"
  using assms
  by (cases "cfg s") (simp add: handleSet_def saveSettings_def Let_def not_less [symmetric])

text \<open>
  C6. A request that lacks one of the fields h, m, ap, sz, or whose hour is outside
  1..12, minute outside 0..59 or snooze outside 1..30, is answered with status 400 and
  leaves the whole state as it was. Every other request is answered with the redirect;
  the configuration holds the submitted values, carries its checksum and is the
  record in the EEPROM, and the trigger engine is idle with the buzzer silent and the
  guard key cleared.
\<close>

theorem handleSet_validates:
  "(\<not> (hasArg args ''h'' \<and> hasArg args ''m'' \<and> hasArg args ''ap'' \<and> hasArg args ''sz'')
      \<longrightarrow> handleSet toInt args s = (PlainText 400 ''Missing fields'', s))
   \<and> (hasArg args ''h'' \<and> hasArg args ''m'' \<and> hasArg args ''ap'' \<and> hasArg args ''sz''
       \<and> (toInt (arg args ''h'') < 1 \<or> 12 < toInt (arg args ''h'')
          \<or> toInt (arg args ''m'') < 0 \<or> 59 < toInt (arg args ''m'')
          \<or> toInt (arg args ''sz'') < 1 \<or> 30 < toInt (arg args ''sz''))
      \<longrightarrow> handleSet toInt args s = (PlainText 400 ''Invalid values'', s))
   \<and> (hasArg args ''h'' \<and> hasArg args ''m'' \<and> hasArg args ''ap'' \<and> hasArg args ''sz''
       \<and> 1 \<le> toInt (arg args ''h'') \<and> toInt (arg args ''h'') \<le> 12
       \<and> 0 \<le> toInt (arg args ''m'') \<and> toInt (arg args ''m'') \<le> 59
       \<and> 1 \<le> toInt (arg args ''sz'') \<and> toInt (arg args ''sz'') \<le> 30
      \<longrightarrow> fst (handleSet toInt args s) = Redirect 303 ''/''
        \<and> uint (hour12 (cfg (snd (handleSet toInt args s)))) = toInt (arg args ''h'')
        \<and> uint (minute (cfg (snd (handleSet toInt args s)))) = toInt (arg args ''m'')
        \<and> uint (snoozeMin (cfg (snd (handleSet toInt args s)))) = toInt (arg args ''sz'')
        \<and> am (cfg (snd (handleSet toInt args s))) = (if arg args ''ap'' = ''AM'' then 1 else 0)
        \<and> enabled (cfg (snd (handleSet toInt args s))) = (if hasArg args ''en'' then 1 else 0)
        \<and> crc (cfg (snd (handleSet toInt args s))) = simpleCRC (cfg (snd (handleSet toInt args s)))
        \<and> in_range (cfg (snd (handleSet toInt args s)))
        \<and> eeprom (snd (handleSet toInt args s)) = cfg (snd (handleSet toInt args s))
        \<and> \<not> alarmRinging (snd (handleSet toInt args s))
        \<and> snoozeUntil (snd (handleSet toInt args s)) = 0
        \<and> lastTriggerKey (snd (handleSet toInt args s)) = -1
        \<and> buzzer (snd (handleSet toInt args s)) = None)"
proof (intro conjI impI)
  assume "\<not> (hasArg args ''h'' \<and> hasArg args ''m'' \<and> hasArg args ''ap'' \<and> hasArg args ''sz'')"
  then show "handleSet toInt args s = (PlainText 400 ''Missing fields'', s)"
    by (auto simp add: handleSet_def)
next
  assume "hasArg args ''h'' \<and> hasArg args ''m'' \<and> hasArg args ''ap'' \<and> hasArg args ''sz''
       \<and> (toInt (arg args ''h'') < 1 \<or> 12 < toInt (arg args ''h'')
          \<or> toInt (arg args ''m'') < 0 \<or> 59 < toInt (arg args ''m'')
          \<or> toInt (arg args ''sz'') < 1 \<or> 30 < toInt (arg args ''sz''))"
  then show "handleSet toInt args s = (PlainText 400 ''Invalid values'', s)"
    by (auto simp add: handleSet_def Let_def)
next
  assume a: "hasArg args ''h'' \<and> hasArg args ''m'' \<and> hasArg args ''ap'' \<and> hasArg args ''sz''
       \<and> 1 \<le> toInt (arg args ''h'') \<and> toInt (arg args ''h'') \<le> 12
       \<and> 0 \<le> toInt (arg args ''m'') \<and> toInt (arg args ''m'') \<le> 59
       \<and> 1 \<le> toInt (arg args ''sz'') \<and> toInt (arg args ''sz'') \<le> 30"
  then have eq: "handleSet toInt args s = (Redirect 303 ''/'',
      s\<lparr>cfg := \<lparr>enabled = (if hasArg args ''en'' then 1 else 0),
                 hour12 = word_of_int (toInt (arg args ''h'')),
                 minute = word_of_int (toInt (arg args ''m'')),
                 am = (if arg args ''ap'' = ''AM'' then 1 else 0),
                 snoozeMin = word_of_int (toInt (arg args ''sz'')),
                 crc = simpleCRC
                   \<lparr>enabled = (if hasArg args ''en'' then 1 else 0),
                    hour12 = word_of_int (toInt (arg args ''h'')),
                    minute = word_of_int (toInt (arg args ''m'')),
                    am = (if arg args ''ap'' = ''AM'' then 1 else 0),
                    snoozeMin = word_of_int (toInt (arg args ''sz'')),
                    crc = crc (cfg s)\<rparr>\<rparr>,
        eeprom := \<lparr>enabled = (if hasArg args ''en'' then 1 else 0),
                 hour12 = word_of_int (toInt (arg args ''h'')),
                 minute = word_of_int (toInt (arg args ''m'')),
                 am = (if arg args ''ap'' = ''AM'' then 1 else 0),
                 snoozeMin = word_of_int (toInt (arg args ''sz'')),
                 crc = simpleCRC
                   \<lparr>enabled = (if hasArg args ''en'' then 1 else 0),
                    hour12 = word_of_int (toInt (arg args ''h'')),
                    minute = word_of_int (toInt (arg args ''m'')),
                    am = (if arg args ''ap'' = ''AM'' then 1 else 0),
                    snoozeMin = word_of_int (toInt (arg args ''sz'')),
                    crc = crc (cfg s)\<rparr>\<rparr>,
        alarmRinging := False, snoozeUntil := 0, buzzer := None, lastTriggerKey := -1\<rparr>)"
    by (intro handleSet_accept) simp_all
  from a have h: "uint (word_of_int (toInt (arg args ''h'')) :: uint8_t) = toInt (arg args ''h'')"
    by (intro uint_cast_small) simp_all
  from a have m: "uint (word_of_int (toInt (arg args ''m'')) :: uint8_t) = toInt (arg args ''m'')"
    by (intro uint_cast_small) simp_all
  from a have z: "uint (word_of_int (toInt (arg args ''sz'')) :: uint8_t) = toInt (arg args ''sz'')"
    by (intro uint_cast_small) simp_all
  show "fst (handleSet toInt args s) = Redirect 303 ''/''" by (simp add: eq)
  show "uint (hour12 (cfg (snd (handleSet toInt args s)))) = toInt (arg args ''h'')"
    by (simp add: eq h)
  show "uint (minute (cfg (snd (handleSet toInt args s)))) = toInt (arg args ''m'')"
    by (simp add: eq m)
  show "uint (snoozeMin (cfg (snd (handleSet toInt args s)))) = toInt (arg args ''sz'')"
    by (simp add: eq z)
  show "am (cfg (snd (handleSet toInt args s))) = (if arg args ''ap'' = ''AM'' then 1 else 0)"
    by (simp add: eq)
  show "enabled (cfg (snd (handleSet toInt args s))) = (if hasArg args ''en'' then 1 else 0)"
    by (simp add: eq)
  show "crc (cfg (snd (handleSet toInt args s))) = simpleCRC (cfg (snd (handleSet toInt args s)))"
    by (simp add: eq simpleCRC_def)
  have "(1::int) \<le> uint (word_of_int (toInt (arg args ''h'')) :: uint8_t)"
    "uint (word_of_int (toInt (arg args ''h'')) :: uint8_t) \<le> 12"
    "uint (word_of_int (toInt (arg args ''m'')) :: uint8_t) \<le> 59"
    "(1::int) \<le> uint (word_of_int (toInt (arg args ''sz'')) :: uint8_t)"
    "uint (word_of_int (toInt (arg args ''sz'')) :: uint8_t) \<le> 30"
    using a unfolding h m z by simp_all
  then have "(1::uint8_t) \<le> word_of_int (toInt (arg args ''h''))"
    "(word_of_int (toInt (arg args ''h'')) :: uint8_t) \<le> 12"
    "(word_of_int (toInt (arg args ''m'')) :: uint8_t) \<le> 59"
    "(1::uint8_t) \<le> word_of_int (toInt (arg args ''sz''))"
    "(word_of_int (toInt (arg args ''sz'')) :: uint8_t) \<le> 30"
    by (simp_all add: word_le_def)
  then show "in_range (cfg (snd (handleSet toInt args s)))"
    by (simp add: eq in_range_def)
  show "eeprom (snd (handleSet toInt args s)) = cfg (snd (handleSet toInt args s))"
    by (simp add: eq)
  show "\<not> alarmRinging (snd (handleSet toInt args s))" by (simp add: eq)
  show "snoozeUntil (snd (handleSet toInt args s)) = 0" by (simp add: eq)
  show "lastTriggerKey (snd (handleSet toInt args s)) = -1" by (simp add: eq)
  show "buzzer (snd (handleSet toInt args s)) = None" by (simp add: eq)
qed

theorem handleSet_validates_witness:
  "handleSet toInt_digits form_missing snoozed_0700 = (PlainText 400 ''Missing fields'', snoozed_0700)
   \<and> handleSet toInt_digits form_invalid snoozed_0700 = (PlainText 400 ''Invalid values'', snoozed_0700)
   \<and> fst (handleSet toInt_digits form_ok snoozed_0700) = Redirect 303 ''/''
   \<and> uint (hour12 (cfg (snd (handleSet toInt_digits form_ok snoozed_0700)))) = 6
   \<and> uint (minute (cfg (snd (handleSet toInt_digits form_ok snoozed_0700)))) = 30
   \<and> snoozeUntil snoozed_0700 = 1793581502
   \<and> snoozeUntil (snd (handleSet toInt_digits form_ok snoozed_0700)) = 0"
proof -
  have a: "\<not> (hasArg form_missing ''h'' \<and> hasArg form_missing ''m'' \<and> hasArg form_missing ''ap''
              \<and> hasArg form_missing ''sz'')"
    by code_simp
  have b: "hasArg form_invalid ''h'' \<and> hasArg form_invalid ''m'' \<and> hasArg form_invalid ''ap''
       \<and> hasArg form_invalid ''sz''
       \<and> (toInt_digits (arg form_invalid ''h'') < 1 \<or> 12 < toInt_digits (arg form_invalid ''h'')
          \<or> toInt_digits (arg form_invalid ''m'') < 0 \<or> 59 < toInt_digits (arg form_invalid ''m'')
          \<or> toInt_digits (arg form_invalid ''sz'') < 1 \<or> 30 < toInt_digits (arg form_invalid ''sz''))"
    by code_simp
  have c: "hasArg form_ok ''h'' \<and> hasArg form_ok ''m'' \<and> hasArg form_ok ''ap'' \<and> hasArg form_ok ''sz''
       \<and> 1 \<le> toInt_digits (arg form_ok ''h'') \<and> toInt_digits (arg form_ok ''h'') \<le> 12
       \<and> 0 \<le> toInt_digits (arg form_ok ''m'') \<and> toInt_digits (arg form_ok ''m'') \<le> 59
       \<and> 1 \<le> toInt_digits (arg form_ok ''sz'') \<and> toInt_digits (arg form_ok ''sz'') \<le> 30"
    by code_simp
  have d: "toInt_digits (arg form_ok ''h'') = 6" "toInt_digits (arg form_ok ''m'') = 30"
    "snoozeUntil snoozed_0700 = 1793581502"
    by code_simp+
  note t1 = handleSet_validates [of form_missing toInt_digits snoozed_0700]
  note t2 = handleSet_validates [of form_invalid toInt_digits snoozed_0700]
  note t3 = handleSet_validates [of form_ok toInt_digits snoozed_0700]
  from t1 a have 1: "handleSet toInt_digits form_missing snoozed_0700
      = (PlainText 400 ''Missing fields'', snoozed_0700)" by blast
  from t2 b have 2: "handleSet toInt_digits form_invalid snoozed_0700
      = (PlainText 400 ''Invalid values'', snoozed_0700)" by blast
  from t3 c have 3: "fst (handleSet toInt_digits form_ok snoozed_0700) = Redirect 303 ''/''
      \<and> uint (hour12 (cfg (snd (handleSet toInt_digits form_ok snoozed_0700)))) = toInt_digits (arg form_ok ''h'')
      \<and> uint (minute (cfg (snd (handleSet toInt_digits form_ok snoozed_0700)))) = toInt_digits (arg form_ok ''m'')
      \<and> snoozeUntil (snd (handleSet toInt_digits form_ok snoozed_0700)) = 0" by blast
  from 1 2 3 d show ?thesis by simp
qed

subsection \<open>The display routine\<close>

lemma drawOLED_effect:
  assumes "drawOLED e s = Some s'"
  shows "\<exists>fr. s' = s\<lparr>snoozeUntil :=
                     (if \<not> alarmRinging s \<and> 0 < snoozeUntil s \<and> timeSynced e \<and> snoozeUntil s \<le> time e
                      then 0 else snoozeUntil s),
                   oled := fr\<rparr>"
proof (cases "drawOLED_row1 e")
  case None
  with assms show ?thesis by (simp add: drawOLED_def)
next
  case (Some row1)
  with assms show ?thesis
    by (auto simp add: drawOLED_def Let_def split: if_splits)
qed

lemma drawOLED_total:
  "(drawOLED e s = None) = (timeSynced e \<and> localtime e = None)"
  by (auto simp add: drawOLED_def drawOLED_row1_def Let_def split: option.splits prod.splits)

lemma alarmSoundUpdate_cases:
  "alarmSoundUpdate e s =
     (if \<not> alarmRinging s then s\<lparr>buzzer := None\<rparr>
      else if \<not> sound_on e s then s\<lparr>patternMs := pattern_start e s, buzzer := None\<rparr>
      else if \<not> sound_due e s then s\<lparr>patternMs := pattern_start e s\<rparr>
      else s\<lparr>patternMs := pattern_start e s, lastToneStepMs := millis e,
             toneFreq := warble_freq s, toneDir := warble_dir s,
             buzzer := Some (warble_freq s)\<rparr>)"
  apply (cases "alarmRinging s"; cases "patternMs s = 0"; cases "sound_due e s"; cases "sound_on e s")
  apply (simp_all add: alarmSoundUpdate_def Let_def sound_on_def sound_due_def pattern_start_def
      warble_freq_def warble_dir_def)
  done

lemma same_trigger_alarmSoundUpdate: "same_trigger s (alarmSoundUpdate e s)"
  by (simp add: alarmSoundUpdate_cases same_trigger_def)

lemma same_trigger_maintain: "same_trigger s (maintainWiFiAndTime e s)"
  by (simp add: maintainWiFiAndTime_def same_trigger_def Let_def)

text \<open>
  C9 (as the sketch has it). \<open>drawOLED\<close> returns unless the clock is synced and
  \<open>localtime\<close> gave a null pointer. It leaves the configuration, the stored record,
  \<open>alarmRinging\<close> and \<open>lastTriggerKey\<close> as they were. It leaves \<open>snoozeUntil\<close> as it
  was, except that it sets it to 0 when the alarm is not ringing, the clock is
  synced and a stored deadline has been reached. The sound routine and the WiFi/NTP
  routine write none of these.
\<close>

theorem drawOLED_writes_only_elapsed_snooze:
  assumes "timeSynced e \<longrightarrow> localtime e \<noteq> None"
  shows "\<exists>s'. drawOLED e s = Some s'
     \<and> cfg s' = cfg s \<and> eeprom s' = eeprom s
     \<and> alarmRinging s' = alarmRinging s \<and> lastTriggerKey s' = lastTriggerKey s
     \<and> snoozeUntil s' =
         (if \<not> alarmRinging s \<and> 0 < snoozeUntil s \<and> timeSynced e \<and> snoozeUntil s \<le> time e
          then 0 else snoozeUntil s)
     \<and> same_trigger s (alarmSoundUpdate e s)
     \<and> same_trigger s (maintainWiFiAndTime e s)"
proof -
  from assms have "drawOLED e s \<noteq> None" by (simp add: drawOLED_total)
  then obtain s' where s': "drawOLED e s = Some s'" by blast
  from drawOLED_effect [OF s'] obtain fr where
    "s' = s\<lparr>snoozeUntil :=
               (if \<not> alarmRinging s \<and> 0 < snoozeUntil s \<and> timeSynced e \<and> snoozeUntil s \<le> time e
                then 0 else snoozeUntil s),
             oled := fr\<rparr>" ..
  then have "cfg s' = cfg s \<and> eeprom s' = eeprom s
     \<and> alarmRinging s' = alarmRinging s \<and> lastTriggerKey s' = lastTriggerKey s
     \<and> snoozeUntil s' =
         (if \<not> alarmRinging s \<and> 0 < snoozeUntil s \<and> timeSynced e \<and> snoozeUntil s \<le> time e
          then 0 else snoozeUntil s)"
    by simp
  with s' same_trigger_alarmSoundUpdate same_trigger_maintain show ?thesis by blast
qed

theorem drawOLED_writes_only_elapsed_snooze_witness:
  "map_option snoozeUntil (drawOLED (at_clock 1793581501 7 5 1 321000) snoozed_0700) = Some 1793581502
   \<and> map_option lastTriggerKey (drawOLED (at_clock 1793581501 7 5 1 321000) snoozed_0700) = Some (-1)"
proof -
  have h: "timeSynced (at_clock 1793581501 7 5 1 321000)
      \<longrightarrow> localtime (at_clock 1793581501 7 5 1 321000) \<noteq> None"
    by (simp add: at_clock_def)
  have v: "\<not> snoozeUntil snoozed_0700 \<le> time (at_clock 1793581501 7 5 1 321000)"
    "snoozeUntil snoozed_0700 = 1793581502" "lastTriggerKey snoozed_0700 = -1"
    by code_simp+
  from drawOLED_writes_only_elapsed_snooze [OF h, of snoozed_0700] v
  show ?thesis by auto
qed

theorem drawOLED_clears_snooze_counterexample:
  "snoozeUntil snoozed_0700 = 1793581502
   \<and> map_option snoozeUntil (drawOLED (at_clock 1793581502 7 5 2 322000) snoozed_0700) = Some 0"
  by code_simp

subsection \<open>The invariant of all runs\<close>

lemma warble_arith:
  fixes f d :: int
  assumes "1200 \<le> f" "f \<le> 2520" "(f - 1200) mod 120 = 0" "d = 1 \<or> d = -1"
    "f = 2520 \<longrightarrow> d = -1" "f = 1200 \<longrightarrow> d = 1"
  shows "1200 \<le> f + d * 120" and "f + d * 120 \<le> 2520" and "(f + d * 120 - 1200) mod 120 = 0"
    and "(2500 \<le> f + d * 120) = (f + d * 120 = 2520)"
    and "(f + d * 120 \<le> 1200) = (f + d * 120 = 1200)"
proof -
  from assms(3) have "120 dvd (f - 1200)" by (simp add: mod_eq_0_iff_dvd)
  then obtain k where k: "f - 1200 = 120 * k" by (auto simp add: dvd_def)
  then have f: "f = 1200 + 120 * k" by simp
  from assms(1,2) have kb: "0 \<le> k" "k \<le> 11" unfolding f by simp_all
  from assms(5) kb have up: "d = 1 \<Longrightarrow> k \<le> 10" unfolding f by auto
  from assms(6) kb have down: "d = -1 \<Longrightarrow> 1 \<le> k" unfolding f by auto
  define j where "j = k + d"
  have g: "f + d * 120 = 1200 + 120 * j" unfolding f j_def by (simp add: algebra_simps)
  from assms(4) kb up down have b: "0 \<le> j" "j \<le> 11" unfolding j_def by auto
  from b show "1200 \<le> f + d * 120" "f + d * 120 \<le> 2520" unfolding g by simp_all
  show "(f + d * 120 - 1200) mod 120 = 0" unfolding g by simp
  from b show "(2500 \<le> f + d * 120) = (f + d * 120 = 2520)" unfolding g by presburger
  from b show "(f + d * 120 \<le> 1200) = (f + d * 120 = 1200)" unfolding g by presburger
qed

lemma run_inv_setup: "run_inv (setup_sketch rom)"
  by (simp add: setup_sketch_def boot_def loadSettings_cases run_inv_def)

lemma run_inv_handleStop: "run_inv s \<Longrightarrow> run_inv (snd (handleStop s))"
  by (simp add: handleStop_def run_inv_def Let_def)

lemma run_inv_handleSet: "run_inv s \<Longrightarrow> run_inv (snd (handleSet toInt args s))"
  by (simp add: handleSet_def saveSettings_def run_inv_def Let_def)

lemma run_inv_handleSnooze: "run_inv s \<Longrightarrow> run_inv (snd (handleSnooze e s))"
  by (simp add: handleSnooze_def timeSynced_def run_inv_def Let_def)

lemma run_inv_maintain: "run_inv s \<Longrightarrow> run_inv (maintainWiFiAndTime e s)"
  by (simp add: maintainWiFiAndTime_def run_inv_def Let_def)

lemma run_inv_updateAlarmLogic: "run_inv s \<Longrightarrow> run_inv (updateAlarmLogic e s)"
  by (simp add: updateAlarmLogic_def run_inv_def Let_def split: option.split)

lemma warble_in_range:
  assumes "run_inv s"
  shows "1200 \<le> warble_freq s" and "warble_freq s \<le> 2520"
    and "(warble_freq s - 1200) mod 120 = 0"
    and "warble_dir s = 1 \<or> warble_dir s = -1"
    and "warble_freq s = 2520 \<longrightarrow> warble_dir s = -1"
    and "warble_freq s = 1200 \<longrightarrow> warble_dir s = 1"
    and "warble_dir s \<noteq> toneDir s \<longrightarrow>
           warble_freq s = 2520 \<and> warble_dir s = -1 \<or> warble_freq s = 1200 \<and> warble_dir s = 1"
proof -
  from assms have a: "1200 \<le> toneFreq s" "toneFreq s \<le> 2520" "(toneFreq s - 1200) mod 120 = 0"
    "toneDir s = 1 \<or> toneDir s = -1" "toneFreq s = 2520 \<longrightarrow> toneDir s = -1"
    "toneFreq s = 1200 \<longrightarrow> toneDir s = 1"
    by (simp_all add: run_inv_def)
  note w = warble_arith [OF a]
  show "1200 \<le> warble_freq s" "warble_freq s \<le> 2520" "(warble_freq s - 1200) mod 120 = 0"
    using w(1-3) by (simp_all add: warble_freq_def)
  show "warble_dir s = 1 \<or> warble_dir s = -1"
    using a(4) by (simp add: warble_dir_def)
  show "warble_freq s = 2520 \<longrightarrow> warble_dir s = -1"
    by (simp add: warble_dir_def)
  show "warble_freq s = 1200 \<longrightarrow> warble_dir s = 1"
    by (simp add: warble_dir_def)
  show "warble_dir s \<noteq> toneDir s \<longrightarrow>
           warble_freq s = 2520 \<and> warble_dir s = -1 \<or> warble_freq s = 1200 \<and> warble_dir s = 1"
    using w(4,5) by (auto simp add: warble_dir_def warble_freq_def split: if_splits)
qed

lemma run_inv_alarmSoundUpdate:
  assumes "run_inv s"
  shows "run_inv (alarmSoundUpdate e s)"
proof -
  note w = warble_in_range [OF assms]
  have 1: "run_inv (s\<lparr>buzzer := None\<rparr>)"
    using assms by (simp add: run_inv_def)
  have 2: "run_inv (s\<lparr>patternMs := p, buzzer := None\<rparr>)" for p
    using assms by (simp add: run_inv_def)
  have 3: "run_inv (s\<lparr>patternMs := p\<rparr>)" for p
    using assms by (simp add: run_inv_def)
  have 4: "run_inv (s\<lparr>patternMs := p, lastToneStepMs := l, toneFreq := warble_freq s,
                        toneDir := warble_dir s, buzzer := Some (warble_freq s)\<rparr>)" for p l
    using assms w(1-6) by (simp add: run_inv_def)
  from 1 2 3 4 show ?thesis
    by (simp add: alarmSoundUpdate_cases)
qed

lemma run_inv_drawOLED:
  assumes "run_inv s" and "drawOLED e s = Some s'"
  shows "run_inv s'"
proof -
  from drawOLED_effect [OF assms(2)] obtain fr where
    "s' = s\<lparr>snoozeUntil :=
               (if \<not> alarmRinging s \<and> 0 < snoozeUntil s \<and> timeSynced e \<and> snoozeUntil s \<le> time e
                then 0 else snoozeUntil s),
             oled := fr\<rparr>" ..
  with assms(1) show ?thesis by (simp add: run_inv_def)
qed

lemma run_inv_tick:
  assumes "run_inv s" and "tick e s = Some s'"
  shows "run_inv s'"
proof -
  have "run_inv (alarmSoundUpdate e (updateAlarmLogic e (maintainWiFiAndTime e s)))"
    by (intro run_inv_alarmSoundUpdate run_inv_updateAlarmLogic run_inv_maintain assms(1))
  moreover from assms(2)
  have "drawOLED e (alarmSoundUpdate e (updateAlarmLogic e (maintainWiFiAndTime e s))) = Some s'"
    by (simp add: tick_def Let_def)
  ultimately show ?thesis by (rule run_inv_drawOLED)
qed

lemma run_inv_handleClient: "run_inv s \<Longrightarrow> run_inv (snd (handleClient toInt r e s))"
  by (cases r) (simp_all add: handleClient_def run_inv_handleSet run_inv_handleStop run_inv_handleSnooze)

lemma run_inv_loop: "run_inv s \<Longrightarrow> loop toInt req e s = Some s' \<Longrightarrow> run_inv s'"
  by (cases req) (auto simp add: loop_def intro: run_inv_tick run_inv_handleClient)

lemma run_inv_step: "run_inv s \<Longrightarrow> step toInt ev s = Some s' \<Longrightarrow> run_inv s'"
  by (cases ev)
    (auto simp add: step_def intro: run_inv_handleClient run_inv_maintain run_inv_updateAlarmLogic
      run_inv_alarmSoundUpdate run_inv_drawOLED run_inv_loop)

lemma run_inv_run: "run toInt evs s = Some s' \<Longrightarrow> run_inv s \<Longrightarrow> run_inv s'"
proof (induction evs arbitrary: s)
  case Nil
  then show ?case by simp
next
  case (Cons ev evs)
  from Cons.prems(1) obtain s1 where s1: "step toInt ev s = Some s1" and r: "run toInt evs s1 = Some s'"
    by (auto split: option.splits)
  from run_inv_step [OF Cons.prems(2) s1] have "run_inv s1" .
  with Cons.IH [OF r] show ?case .
qed

lemma run_inv_reachable: "run toInt evs (setup_sketch rom) = Some s \<Longrightarrow> run_inv s"
  by (rule run_inv_run [OF _ run_inv_setup])

text \<open>
  C8. In every state that a run from \<open>setup()\<close> reaches (request handlers, the
  routines of the loop, whole passes of the loop, in any order and with any clock
  readings), a ringing alarm has no snooze deadline stored, so none that could still
  be pending at any clock reading \<open>e\<close>.
\<close>

theorem ringing_excludes_snooze:
  assumes "run toInt evs (setup_sketch rom) = Some s" and "alarmRinging s"
  shows "snoozeUntil s = 0 \<and> \<not> (0 < snoozeUntil s \<and> time e < snoozeUntil s)"
  using run_inv_reachable [OF assms(1)] assms(2) by (simp add: run_inv_def)

theorem ringing_excludes_snooze_witness:
  "run toInt_digits rering_events (setup_sketch rom_0700) = Some rerung_0700
   \<and> alarmRinging rerung_0700 \<and> snoozeUntil rerung_0700 = 0"
proof -
  have r: "run toInt_digits rering_events (setup_sketch rom_0700) = Some rerung_0700"
    by code_simp
  have a: "alarmRinging rerung_0700" by code_simp
  from ringing_excludes_snooze [OF r a] r a show ?thesis by blast
qed

text \<open>
  C5 (as the sketch has it). In every state that a run from \<open>setup()\<close> reaches, the
  tone frequency and the frequency the buzzer plays lie in [1200, 2520]: the sweep
  overshoots 2500 by one sample, to 2520. A sound update changes the direction only
  on a sample that lands on 2520 (to decreasing) or on 1200 (to increasing), and the
  two reversal tests never both apply to one sample.
\<close>

theorem warble_stays_in_range:
  assumes "run toInt evs (setup_sketch rom) = Some s"
  shows "1200 \<le> toneFreq s \<and> toneFreq s \<le> 2520
     \<and> (\<forall>f. buzzer s = Some f \<longrightarrow> 1200 \<le> f \<and> f \<le> 2520)
     \<and> (toneDir (alarmSoundUpdate e s) \<noteq> toneDir s \<longrightarrow>
          toneFreq (alarmSoundUpdate e s) = 2520 \<and> toneDir (alarmSoundUpdate e s) = -1
          \<or> toneFreq (alarmSoundUpdate e s) = 1200 \<and> toneDir (alarmSoundUpdate e s) = 1)
     \<and> \<not> (2500 \<le> toneFreq (alarmSoundUpdate e s) \<and> toneFreq (alarmSoundUpdate e s) \<le> 1200)"
proof -
  from run_inv_reachable [OF assms] have i: "run_inv s" .
  then have 1: "1200 \<le> toneFreq s \<and> toneFreq s \<le> 2520"
    by (simp add: run_inv_def)
  from i have 2: "\<forall>f. buzzer s = Some f \<longrightarrow> 1200 \<le> f \<and> f \<le> 2520"
    by (auto simp add: run_inv_def)
  from warble_in_range(7) [OF i]
  have 3: "toneDir (alarmSoundUpdate e s) \<noteq> toneDir s \<longrightarrow>
          toneFreq (alarmSoundUpdate e s) = 2520 \<and> toneDir (alarmSoundUpdate e s) = -1
          \<or> toneFreq (alarmSoundUpdate e s) = 1200 \<and> toneDir (alarmSoundUpdate e s) = 1"
    by (simp add: alarmSoundUpdate_cases)
  have 4: "\<not> (2500 \<le> toneFreq (alarmSoundUpdate e s) \<and> toneFreq (alarmSoundUpdate e s) \<le> 1200)"
    by simp
  from 1 2 3 4 show ?thesis by blast
qed

theorem warble_stays_in_range_witness:
  "run toInt_digits warble_events (setup_sketch rom_0700) = Some warbled_0700
   \<and> 1200 \<le> toneFreq warbled_0700 \<and> toneFreq warbled_0700 \<le> 2520"
proof -
  have r: "run toInt_digits warble_events (setup_sketch rom_0700) = Some warbled_0700"
    by code_simp
  from warble_stays_in_range [OF r] r show ?thesis by blast
qed

theorem warble_exceeds_2500_counterexample:
  "run toInt_digits warble_events (setup_sketch rom_0700) = Some warbled_0700
   \<and> alarmRinging warbled_0700 \<and> toneFreq warbled_0700 = 2520 \<and> buzzer warbled_0700 = Some 2520"
  by code_simp

lemma updateAlarmLogic_snooze_resume:
  assumes "enabled (cfg s) \<noteq> 0" and "timeSynced e"
    and "0 < snoozeUntil s" and "snoozeUntil s \<le> time e"
  shows "updateAlarmLogic e s = s\<lparr>snoozeUntil := 0, alarmRinging := True, lastTriggerKey := -1\<rparr>"
  using assms by (simp add: updateAlarmLogic_def Let_def)

text \<open>
  C2 (the sketch at a concrete run). When the deadline of a snooze is reached, the
  engine rings again and clears \<open>snoozeUntil\<close> and the guard key, as the lemma above
  says for every state; it writes nothing else. So the device that rings at 07:00:00,
  sweeps up to 2520 Hz and is snoozed at 07:00:02 rings again at 07:05:02 with the
  tone frequency and direction of the previous ring (2520 Hz, decreasing), not with
  1200 Hz, increasing, as a ring started by the minute match has.
\<close>

theorem snooze_resume_keeps_tone:
  "run toInt_digits rering_events (setup_sketch rom_0700) = Some rerung_0700
   \<and> snoozed snoozed_0700 \<and> snoozeUntil snoozed_0700 = 1793581502
   \<and> rerung_0700 = updateAlarmLogic (at_clock 1793581502 7 5 2 322000) snoozed_0700
   \<and> alarmRinging rerung_0700 \<and> snoozeUntil rerung_0700 = 0 \<and> lastTriggerKey rerung_0700 = -1
   \<and> toneFreq rerung_0700 = 2520 \<and> toneDir rerung_0700 = -1"
  by code_simp

subsection \<open>Firing once per minute\<close>

lemma updateAlarmLogic_ringing:
  "alarmRinging s \<Longrightarrow> snoozeUntil s = 0 \<Longrightarrow> updateAlarmLogic e s = s"
  by (simp add: updateAlarmLogic_def Let_def split: option.split)

lemma updateAlarmLogic_guard:
  "lastTriggerKey s = minute_key ti \<Longrightarrow> localtime e = Some ti \<Longrightarrow> \<not> 0 < snoozeUntil s
   \<Longrightarrow> updateAlarmLogic e s = s"
  by (simp add: updateAlarmLogic_def minute_key_def Let_def)

lemma updateAlarmLogic_fire:
  assumes "enabled (cfg s) \<noteq> 0" and "\<not> alarmRinging s" and "\<not> 0 < snoozeUntil s"
    and "lastTriggerKey s \<noteq> minute_key ti"
    and "timeSynced e" and "localtime e = Some ti"
    and "tm_hour ti = alarmHour24 s" and "tm_min ti = uint (minute (cfg s))" and "tm_sec ti = 0"
  shows "updateAlarmLogic e s =
           s\<lparr>lastTriggerKey := minute_key ti, alarmRinging := True, toneFreq := 1200,
             toneDir := 1, lastToneStepMs := 0\<rparr>"
  using assms by (simp add: updateAlarmLogic_def minute_key_def Let_def)

lemma alarmHour24_cong: "cfg s' = cfg s \<Longrightarrow> alarmHour24 s' = alarmHour24 s"
  by (simp add: alarmHour24_def)

lemma alarmHour24_nonneg: "0 \<le> alarmHour24 s"
  by (simp add: alarmHour24_def)

lemma drawOLED_ringing:
  assumes "alarmRinging s" and "timeSynced e \<longrightarrow> localtime e \<noteq> None"
  shows "\<exists>s'. drawOLED e s = Some s' \<and> same_trigger s s'"
proof -
  from assms(2) have "drawOLED e s \<noteq> None" by (simp add: drawOLED_total)
  then obtain s' where s': "drawOLED e s = Some s'" by blast
  from drawOLED_effect [OF s'] assms(1) have "same_trigger s s'"
    by (auto simp add: same_trigger_def)
  with s' show ?thesis by blast
qed

lemma tick_ringing:
  assumes "alarmRinging s" and "snoozeUntil s = 0" and "timeSynced e \<longrightarrow> localtime e \<noteq> None"
  shows "\<exists>s'. tick e s = Some s' \<and> same_trigger s s'"
proof -
  define s1 where "s1 = maintainWiFiAndTime e s"
  have t1: "same_trigger s s1" unfolding s1_def by (rule same_trigger_maintain)
  with assms have "updateAlarmLogic e s1 = s1"
    by (intro updateAlarmLogic_ringing) (simp_all add: same_trigger_def)
  moreover define s2 where "s2 = alarmSoundUpdate e s1"
  ultimately have ti: "tick e s = drawOLED e s2"
    by (simp add: tick_def Let_def s1_def)
  have t2: "same_trigger s1 s2" unfolding s2_def by (rule same_trigger_alarmSoundUpdate)
  with t1 assms(1) have "alarmRinging s2" by (simp add: same_trigger_def)
  from drawOLED_ringing [OF this assms(3)] obtain s' where
    "drawOLED e s2 = Some s'" and "same_trigger s2 s'" by blast
  with t1 t2 ti show ?thesis by (auto simp add: same_trigger_def)
qed

lemma tick_fire:
  assumes "enabled (cfg s) \<noteq> 0" and "\<not> alarmRinging s" and "snoozeUntil s = 0"
    and "lastTriggerKey s \<noteq> minute_key ti"
    and "timeSynced e" and "localtime e = Some ti"
    and "tm_hour ti = alarmHour24 s" and "tm_min ti = uint (minute (cfg s))" and "tm_sec ti = 0"
  shows "\<exists>s'. tick e s = Some s' \<and> alarmRinging s' \<and> snoozeUntil s' = 0
           \<and> lastTriggerKey s' = minute_key ti"
proof -
  define s1 where "s1 = maintainWiFiAndTime e s"
  have t1: "same_trigger s s1" unfolding s1_def by (rule same_trigger_maintain)
  then have c: "cfg s1 = cfg s" by (simp add: same_trigger_def)
  define s2 where "s2 = updateAlarmLogic e s1"
  have "s2 = s1\<lparr>lastTriggerKey := minute_key ti, alarmRinging := True, toneFreq := 1200,
             toneDir := 1, lastToneStepMs := 0\<rparr>"
    unfolding s2_def using assms t1 alarmHour24_cong [OF c]
    by (intro updateAlarmLogic_fire) (simp_all add: same_trigger_def)
  with t1 assms(3) have f2: "alarmRinging s2" "snoozeUntil s2 = 0" "lastTriggerKey s2 = minute_key ti"
    by (simp_all add: same_trigger_def)
  define s3 where "s3 = alarmSoundUpdate e s2"
  have t3: "same_trigger s2 s3" unfolding s3_def by (rule same_trigger_alarmSoundUpdate)
  have ti: "tick e s = drawOLED e s3"
    by (simp add: tick_def Let_def s1_def s2_def s3_def)
  from t3 f2 have "alarmRinging s3" by (simp add: same_trigger_def)
  moreover from assms(5,6) have "timeSynced e \<longrightarrow> localtime e \<noteq> None" by simp
  ultimately obtain s' where "drawOLED e s3 = Some s'" and "same_trigger s3 s'"
    using drawOLED_ringing by blast
  with t3 f2 ti show ?thesis by (auto simp add: same_trigger_def)
qed

lemma ring_starts_ringing:
  assumes "alarmRinging s" and "snoozeUntil s = 0"
    and "\<forall>e \<in> set es. timeSynced e \<longrightarrow> localtime e \<noteq> None"
  shows "\<exists>s'. ring_starts es s = Some (0, s') \<and> same_trigger s s'"
  using assms
proof (induction es arbitrary: s)
  case Nil
  then show ?case by (simp add: same_trigger_def)
next
  case (Cons e es)
  from Cons.prems have "timeSynced e \<longrightarrow> localtime e \<noteq> None" by simp
  from tick_ringing [OF Cons.prems(1,2) this] obtain s1 where
    s1: "tick e s = Some s1" and t1: "same_trigger s s1" by blast
  from t1 Cons.prems(1,2) have r1: "alarmRinging s1" "snoozeUntil s1 = 0"
    by (simp_all add: same_trigger_def)
  from Cons.prems(3) have "\<forall>e \<in> set es. timeSynced e \<longrightarrow> localtime e \<noteq> None" by simp
  from Cons.IH [OF r1 this] obtain s' where
    s': "ring_starts es s1 = Some (0, s')" and t': "same_trigger s1 s'" by blast
  from Cons.prems(1) have "\<not> idle s" by (simp add: idle_def)
  with s1 s' have "ring_starts (e # es) s = Some (0, s')" by simp
  with t1 t' show ?case by (auto simp add: same_trigger_def)
qed

text \<open>
  Passes of the loop that serve no request. Take an idle state that a run from
  \<open>setup()\<close> reaches, with the alarm enabled, and a pass whose synced local time is
  the configured hour and minute at second 0. Then in that pass and any further
  request-free passes (as long as none meets a null \<open>localtime\<close>), the engine goes
  from idle to ringing exactly once: in the first pass, which records the minute key.
  The key alone already blocks the trigger: a pass of the engine at a time whose key
  equals \<open>lastTriggerKey\<close>, with no snooze deadline stored, changes nothing.
\<close>

lemma alarm_fires_once_per_minute:
  assumes "run toInt evs (setup_sketch rom) = Some s"
    and "enabled (cfg s) \<noteq> 0" and "idle s"
    and "timeSynced e0" and "localtime e0 = Some ti"
    and "tm_hour ti = alarmHour24 s" and "tm_min ti = uint (minute (cfg s))" and "tm_sec ti = 0"
    and "0 \<le> tm_yday ti"
    and "\<forall>e \<in> set es. timeSynced e \<longrightarrow> localtime e \<noteq> None"
  shows "(\<exists>s'. ring_starts (e0 # es) s = Some (1, s') \<and> alarmRinging s'
            \<and> lastTriggerKey s' = minute_key ti)
     \<and> (lastTriggerKey s2 = minute_key ti2 \<and> localtime e2 = Some ti2 \<and> \<not> 0 < snoozeUntil s2
          \<longrightarrow> updateAlarmLogic e2 s2 = s2)"
proof -
  from run_inv_reachable [OF assms(1)] have i: "run_inv s" .
  from assms(3) have nr: "\<not> alarmRinging s" by (simp add: idle_def)
  from i assms(3) have z: "snoozeUntil s = 0" by (simp add: run_inv_def idle_def)
  from i nr have k: "lastTriggerKey s = -1" by (simp add: run_inv_def)
  have "0 \<le> tm_yday ti * 24 * 60" using assms(9) by simp
  moreover have "0 \<le> tm_hour ti * 60" unfolding assms(6) using alarmHour24_nonneg [of s] by simp
  moreover have "0 \<le> tm_min ti" unfolding assms(7) by simp
  ultimately have "0 \<le> minute_key ti" unfolding minute_key_def by linarith
  with k have ne: "lastTriggerKey s \<noteq> minute_key ti" by simp
  from tick_fire [OF assms(2) nr z ne assms(4-8)] obtain s1 where
    s1: "tick e0 s = Some s1" and r1: "alarmRinging s1" "snoozeUntil s1 = 0"
    and k1: "lastTriggerKey s1 = minute_key ti" by blast
  from ring_starts_ringing [OF r1 assms(10)] obtain s' where
    s': "ring_starts es s1 = Some (0, s')" and t': "same_trigger s1 s'" by blast
  from s1 s' assms(3) r1 have "ring_starts (e0 # es) s = Some (1, s')" by simp
  moreover from t' r1 k1 have "alarmRinging s'" "lastTriggerKey s' = minute_key ti"
    by (simp_all add: same_trigger_def)
  ultimately have 1: "\<exists>s'. ring_starts (e0 # es) s = Some (1, s') \<and> alarmRinging s'
            \<and> lastTriggerKey s' = minute_key ti" by blast
  have 2: "lastTriggerKey s2 = minute_key ti2 \<and> localtime e2 = Some ti2 \<and> \<not> 0 < snoozeUntil s2
          \<longrightarrow> updateAlarmLogic e2 s2 = s2"
    using updateAlarmLogic_guard by blast
  from 1 2 show ?thesis by blast
qed

lemma alarm_fires_once_per_minute_example:
  "idle (setup_sketch rom_0700)
   \<and> map_option fst (ring_starts (at_clock 1793581200 7 0 0 20000 # minute_0700_clocks)
                        (setup_sketch rom_0700)) = Some 1"
proof -
  have r: "run toInt_digits [] (setup_sketch rom_0700) = Some (setup_sketch rom_0700)" by simp
  have a: "enabled (cfg (setup_sketch rom_0700)) \<noteq> 0" by code_simp
  have b: "idle (setup_sketch rom_0700)" by code_simp
  have c: "timeSynced (at_clock 1793581200 7 0 0 20000)" by code_simp
  have d: "localtime (at_clock 1793581200 7 0 0 20000)
             = Some \<lparr>tm_hour = 7, tm_min = 0, tm_sec = 0, tm_yday = 305\<rparr>"
    by (simp add: at_clock_def)
  have e: "tm_hour \<lparr>tm_hour = 7, tm_min = 0, tm_sec = 0, tm_yday = 305\<rparr>
             = alarmHour24 (setup_sketch rom_0700)" by code_simp
  have f: "tm_min \<lparr>tm_hour = 7, tm_min = 0, tm_sec = 0, tm_yday = 305\<rparr>
             = uint (minute (cfg (setup_sketch rom_0700)))" by code_simp
  have g: "tm_sec \<lparr>tm_hour = 7, tm_min = 0, tm_sec = 0, tm_yday = 305\<rparr> = 0" by simp
  have h: "0 \<le> tm_yday \<lparr>tm_hour = 7, tm_min = 0, tm_sec = 0, tm_yday = 305\<rparr>" by simp
  have i: "\<forall>e \<in> set minute_0700_clocks. timeSynced e \<longrightarrow> localtime e \<noteq> None"
    by (simp add: minute_0700_clocks_def at_clock_def)
  from alarm_fires_once_per_minute [OF r a b c d e f g h i]
  obtain s' where "ring_starts (at_clock 1793581200 7 0 0 20000 # minute_0700_clocks)
                        (setup_sketch rom_0700) = Some (1, s')" by blast
  with b show ?thesis by simp
qed

text \<open>
  A stop request clears the guard key. So when the engine runs after it at the
  configured hour and minute, second 0, it rings again, whatever the state was before
  the request.
\<close>

lemma stop_then_engine_fires:
  assumes "enabled (cfg s) \<noteq> 0"
    and "timeSynced e" and "localtime e = Some ti"
    and "tm_hour ti = alarmHour24 s" and "tm_min ti = uint (minute (cfg s))" and "tm_sec ti = 0"
    and "0 \<le> tm_yday ti"
  shows "updateAlarmLogic e (snd (handleStop s)) =
           (snd (handleStop s))\<lparr>lastTriggerKey := minute_key ti, alarmRinging := True,
              toneFreq := 1200, toneDir := 1, lastToneStepMs := 0\<rparr>"
proof -
  have st: "snd (handleStop s) =
      s\<lparr>alarmRinging := False, snoozeUntil := 0, buzzer := None, lastTriggerKey := -1\<rparr>"
    by (simp add: handleStop_def Let_def)
  have c: "cfg (snd (handleStop s)) = cfg s" unfolding st by simp
  have "0 \<le> tm_yday ti * 24 * 60" using assms(7) by simp
  moreover have "0 \<le> tm_hour ti * 60" unfolding assms(4) using alarmHour24_nonneg [of s] by simp
  moreover have "0 \<le> tm_min ti" unfolding assms(5) by simp
  ultimately have "0 \<le> minute_key ti" unfolding minute_key_def by linarith
  then have k: "lastTriggerKey (snd (handleStop s)) \<noteq> minute_key ti" unfolding st by simp
  show ?thesis
    using assms(1-6) k alarmHour24_cong [OF c]
    by (intro updateAlarmLogic_fire) (simp_all add: st)
qed

text \<open>
  C1 (the sketch at a concrete run). The device goes from idle to ringing in the pass
  of the loop at 07:00:00 and records the key of that minute. The next pass, 80 ms
  later with the clock still at 07:00:00, serves a stop request first: the handler
  leaves the engine idle with the key cleared, and the engine of the same pass rings
  again. That is two transitions from idle to ringing in one calendar minute. The same
  happens when the request sets the same alarm again.
\<close>

theorem alarm_fires_twice_after_stop:
  "idle (setup_sketch rom_0700)
   \<and> map_option fst (loop_ring_starts toInt_digits stop_at_0700_passes (setup_sketch rom_0700))
       = Some 2
   \<and> map_option fst (loop_ring_starts toInt_digits set_at_0700_passes (setup_sketch rom_0700))
       = Some 2
   \<and> map_option lastTriggerKey
        (run toInt_digits [Ev_loop None (at_clock 1793581200 7 0 0 20000)] (setup_sketch rom_0700))
       = Some 439620
   \<and> map_option alarmRinging
        (run toInt_digits [Ev_loop None (at_clock 1793581200 7 0 0 20000)] (setup_sketch rom_0700))
       = Some True
   \<and> map_option idle
        (run toInt_digits
           [Ev_loop None (at_clock 1793581200 7 0 0 20000),
            Ev_request POST_stop (at_clock 1793581200 7 0 0 20080)] (setup_sketch rom_0700))
       = Some True
   \<and> map_option lastTriggerKey
        (run toInt_digits
           [Ev_loop None (at_clock 1793581200 7 0 0 20000),
            Ev_request POST_stop (at_clock 1793581200 7 0 0 20080)] (setup_sketch rom_0700))
       = Some (-1)
   \<and> map_option alarmRinging
        (run toInt_digits
           [Ev_loop None (at_clock 1793581200 7 0 0 20000),
            Ev_loop (Some POST_stop) (at_clock 1793581200 7 0 0 20080)] (setup_sketch rom_0700))
       = Some True
   \<and> map_option lastTriggerKey
        (run toInt_digits
           [Ev_loop None (at_clock 1793581200 7 0 0 20000),
            Ev_loop (Some POST_stop) (at_clock 1793581200 7 0 0 20080)] (setup_sketch rom_0700))
       = Some 439620"
  by code_simp

end
